theory Spec2Isabelle
  imports Main "HOL-Library.AList"
begin

section \<open>Python values\<close>

text \<open>
  The parser keeps its data in nested Python dicts. A dict key is a hashable object: a
  string, or some other hashable atom (a number, \<^verbatim>\<open>None\<close>), written \<open>KOther\<close>. A value
  is a dict, a list, a string or some other atom, written \<open>Other\<close>; the three transforms
  test \<^verbatim>\<open>isinstance(data, dict)\<close>, then \<^verbatim>\<open>isinstance(data, list)\<close>, and return everything
  else as it is. A dict is an association list in insertion order; \<open>AList.update k v d\<close>
  is the assignment \<^verbatim>\<open>d[k] = v\<close> (an existing key keeps its place and takes the new
  value, a new key goes to the end), \<open>map_of d k\<close> is the lookup and \<open>AList.delete k d\<close>
  the removal. Values are trees: no object is shared between two places.
\<close>

datatype key = KStr string | KOther nat

datatype pyval = Dict "(key \<times> pyval) list" | List "pyval list" | Str string | Other nat

type_synonym pydict = "(key \<times> pyval) list"

datatype error = TypeError | AttributeError

text \<open>
  A \<^verbatim>\<open>for\<close> loop over a list whose body updates a local and may raise: the first
  exception ends the loop.
\<close>

fun for_each :: "('a \<Rightarrow> 's \<Rightarrow> error + 's) \<Rightarrow> 'a list \<Rightarrow> 's \<Rightarrow> error + 's" where
  "for_each body [] s = Inr s"
| "for_each body (x # xs) s =
     (case body x s of
        Inl e \<Rightarrow> Inl e
      | Inr s' \<Rightarrow> for_each body xs s')"

text \<open>A list comprehension whose element expression may raise.\<close>

fun try_map :: "('a \<Rightarrow> error + 'b) \<Rightarrow> 'a list \<Rightarrow> error + 'b list" where
  "try_map f [] = Inr []"
| "try_map f (x # xs) =
     (case f x of
        Inl e \<Rightarrow> Inl e
      | Inr y \<Rightarrow> (case try_map f xs of
                   Inl e \<Rightarrow> Inl e
                 | Inr ys \<Rightarrow> Inr (y # ys)))"

lemma for_each_cong [fundef_cong]:
  "xs = ys \<Longrightarrow> s = t \<Longrightarrow> (\<And>x a. x \<in> set ys \<Longrightarrow> f x a = g x a)
   \<Longrightarrow> for_each f xs s = for_each g ys t"
  by (induction ys arbitrary: xs s t) (auto split: sum.splits)

lemma try_map_cong [fundef_cong]:
  "xs = ys \<Longrightarrow> (\<And>x. x \<in> set ys \<Longrightarrow> f x = g x) \<Longrightarrow> try_map f xs = try_map g ys"
  by (induction ys arbitrary: xs) (auto split: sum.splits)

section \<open>Library functions on strings\<close>

text \<open>
  Strings are lists of 8-bit characters, and \<^verbatim>\<open>str.strip\<close>, \<^verbatim>\<open>str.lower\<close> and
  \<^verbatim>\<open>str.capitalize\<close> are given on ASCII text: the whitespace characters are the ASCII
  ones for which \<^verbatim>\<open>str.isspace\<close> holds, and only the letters A to Z change case.
\<close>

definition is_space :: "char \<Rightarrow> bool" where
  "is_space c = (let n = (of_char c :: nat) in (9 \<le> n \<and> n \<le> 13) \<or> (28 \<le> n \<and> n \<le> 32))"

definition str_strip :: "string \<Rightarrow> string" where
  "str_strip s = rev (dropWhile is_space (rev (dropWhile is_space s)))"

definition lower_char :: "char \<Rightarrow> char" where
  "lower_char c =
     (case map_of (zip ''ABCDEFGHIJKLMNOPQRSTUVWXYZ'' ''abcdefghijklmnopqrstuvwxyz'') c of
        Some l \<Rightarrow> l
      | None \<Rightarrow> c)"

definition upper_char :: "char \<Rightarrow> char" where
  "upper_char c =
     (case map_of (zip ''abcdefghijklmnopqrstuvwxyz'' ''ABCDEFGHIJKLMNOPQRSTUVWXYZ'') c of
        Some u \<Rightarrow> u
      | None \<Rightarrow> c)"

definition str_lower :: "string \<Rightarrow> string" where
  "str_lower s = map lower_char s"

fun str_capitalize :: "string \<Rightarrow> string" where
  "str_capitalize [] = []"
| "str_capitalize (c # cs) = upper_char c # str_lower cs"

section \<open>The namespace stripper\<close>

text \<open>
  \<^verbatim>\<open>re.sub(r'\{.*?\}', '', tag)\<close> scans the tag from the left. At an opening brace it
  looks for the first closing brace with no newline before it (the dot of the pattern
  matches any character but a newline, as few times as possible); when there is one,
  the text from the opening to the closing brace is dropped and the scan goes on after
  it; otherwise the character is kept and the scan goes on with the next one.
  \<open>find_close cs\<close> is the text after that closing brace.
\<close>

fun find_close :: "string \<Rightarrow> string option" where
  "find_close [] = None"
| "find_close (c # cs) =
     (if c = CHR ''}'' then Some cs
      else if c = CHR 0x0A then None
      else find_close cs)"

lemma find_close_shorter: "find_close cs = Some r \<Longrightarrow> length r < length cs"
  by (induction cs) (auto split: if_splits)

function strip_namespace :: "string \<Rightarrow> string" where
  "strip_namespace [] = []"
| "strip_namespace (c # cs) =
     (if c = CHR ''{'' then
        (case find_close cs of
           Some r \<Rightarrow> strip_namespace r
         | None \<Rightarrow> c # strip_namespace cs)
      else c # strip_namespace cs)"
  by pat_completeness auto
termination
  by (relation "measure length") (auto dest: find_close_shorter)

section \<open>The tree extractor\<close>

text \<open>
  An element of the parsed document, as \<^verbatim>\<open>xml.etree.ElementTree\<close> gives it: its tag
  (with the namespace in braces before the local name), its text (\<^verbatim>\<open>None\<close> when the
  element has none) and its children in document order. \<^verbatim>\<open>ET.fromstring\<close> itself is the
  library's: the extractor is given the root element.
\<close>

datatype element = Element (tag: string) (elem_text: "string option") (children: "element list")

text \<open>\<^verbatim>\<open>child.text.strip() if child.text else ""\<close>: no text and the empty text are both false.\<close>

definition leaf_text :: "element \<Rightarrow> string" where
  "leaf_text child =
     (case elem_text child of
        None \<Rightarrow> ''''
      | Some s \<Rightarrow> if s = [] then '''' else str_strip s)"

fun parse_element :: "element \<Rightarrow> pydict" where
  "parse_element (Element t x cs) =
     foldl (\<lambda>data child.
              AList.update (KStr (strip_namespace (tag child)))
                (if children child \<noteq> [] then Dict (parse_element child)
                 else Str (leaf_text child))
                data)
       [] cs"

text \<open>\<^verbatim>\<open>root.iter()\<close>: the element itself, then its descendants, in document order.\<close>

fun iter :: "element \<Rightarrow> element list" where
  "iter (Element t x cs) = Element t x cs # concat (map iter cs)"

definition parse_xml_to_dict :: "element \<Rightarrow> string list \<Rightarrow> pydict" where
  "parse_xml_to_dict root parents =
     foldl (\<lambda>extracted_data parent.
              (case find (\<lambda>elem. strip_namespace (tag elem) = parent) (iter root) of
                 Some elem \<Rightarrow> AList.update (KStr parent) (Dict (parse_element elem)) extracted_data
               | None \<Rightarrow> extracted_data))
       [] parents"

text \<open>
  The parser object. Its \<^verbatim>\<open>xml_string\<close> is read once, by the constructor, which is given
  the parsed root here; \<^verbatim>\<open>parent_elements or ["header", "values"]\<close> takes the default for
  \<^verbatim>\<open>None\<close> and for the empty list.
\<close>

record xmlparser =
  parent_elements :: "string list"
  parsed_data :: pydict

definition init :: "element \<Rightarrow> string list option \<Rightarrow> xmlparser" where
  "init root parents =
     (let ps = (case parents of
                  None \<Rightarrow> [''header'', ''values'']
                | Some l \<Rightarrow> if l = [] then [''header'', ''values''] else l)
      in \<lparr>parent_elements = ps, parsed_data = parse_xml_to_dict root ps\<rparr>)"

section \<open>The key remover\<close>

text \<open>
  The dict comprehension of \<^verbatim>\<open>recursive_remove\<close> assigns the kept entries, in order, to a
  new dict. Each transform replaces the value of every parent by its image.
\<close>

definition dict_of :: "(key \<times> pyval) list \<Rightarrow> pydict" where
  "dict_of kvs = fold (\<lambda>(k, v). AList.update k v) kvs []"

fun recursive_remove :: "key list \<Rightarrow> pyval \<Rightarrow> pyval" where
  "recursive_remove keys_to_remove (Dict data) =
     Dict (dict_of [(k, recursive_remove keys_to_remove v). (k, v) \<leftarrow> data, k \<notin> set keys_to_remove])"
| "recursive_remove keys_to_remove (List data) = List (map (recursive_remove keys_to_remove) data)"
| "recursive_remove keys_to_remove data = data"

definition remove_keys :: "key list \<Rightarrow> xmlparser \<Rightarrow> xmlparser" where
  "remove_keys keys_to_remove self =
     self\<lparr>parsed_data :=
       map (\<lambda>(parent, v). (parent, recursive_remove keys_to_remove v)) (parsed_data self)\<rparr>"

section \<open>The key flattener\<close>

text \<open>
  \<^verbatim>\<open>v.pop(nested_key)\<close> for a dict \<open>v\<close> that has the key: the value popped and the dict
  that is left. \<^verbatim>\<open>new_data[new_key] = ...\<close> hashes the new key, which raises
  \<^verbatim>\<open>TypeError\<close> for a dict and for a list.
\<close>

definition pop :: "key \<Rightarrow> pydict \<Rightarrow> (pyval \<times> pydict) option" where
  "pop k v = (case map_of v k of None \<Rightarrow> None | Some x \<Rightarrow> Some (x, AList.delete k v))"

fun as_key :: "pyval \<Rightarrow> error + key" where
  "as_key (Str s) = Inr (KStr s)"
| "as_key (Other n) = Inr (KOther n)"
| "as_key (Dict d) = Inl TypeError"
| "as_key (List xs) = Inl TypeError"

text \<open>
  The value stored under the promoted key: \<^verbatim>\<open>v[value_key]\<close> when
  \<^verbatim>\<open>len(v) == 1 and value_key in v\<close>, the remaining dict otherwise.
\<close>

definition promoted :: "key \<Rightarrow> pydict \<Rightarrow> pyval" where
  "promoted value_key v =
     (case map_of v value_key of
        Some x \<Rightarrow> if length v = 1 then x else Dict v
      | None \<Rightarrow> Dict v)"

fun recursive_parse :: "key \<Rightarrow> key \<Rightarrow> pyval \<Rightarrow> error + pyval" where
  "recursive_parse nested_key value_key (Dict data) =
     (case for_each (\<lambda>(k, v) new_data.
             (case (case v of Dict d \<Rightarrow> pop nested_key d | _ \<Rightarrow> None) of
                Some (new_key, v') \<Rightarrow>
                  (case as_key new_key of
                     Inl e \<Rightarrow> Inl e
                   | Inr nk \<Rightarrow> Inr (AList.update nk (promoted value_key v') new_data))
              | None \<Rightarrow>
                  (case recursive_parse nested_key value_key v of
                     Inl e \<Rightarrow> Inl e
                   | Inr r \<Rightarrow> Inr (AList.update k r new_data))))
           data [] of
        Inl e \<Rightarrow> Inl e
      | Inr new_data \<Rightarrow> Inr (Dict new_data))"
| "recursive_parse nested_key value_key (List data) =
     (case try_map (recursive_parse nested_key value_key) data of
        Inl e \<Rightarrow> Inl e
      | Inr items \<Rightarrow> Inr (List items))"
| "recursive_parse nested_key value_key data = Inr data"

text \<open>
  The loop over the parents, for a transform that may raise. The exception leaves the
  method; the parser it leaves behind is not part of the result.
\<close>

definition each_parent :: "(pyval \<Rightarrow> error + pyval) \<Rightarrow> xmlparser \<Rightarrow> error + xmlparser" where
  "each_parent f self =
     (case try_map (\<lambda>(parent, v). case f v of Inl e \<Rightarrow> Inl e | Inr r \<Rightarrow> Inr (parent, r))
             (parsed_data self) of
        Inl e \<Rightarrow> Inl e
      | Inr d \<Rightarrow> Inr (self\<lparr>parsed_data := d\<rparr>))"

definition flatten_nested_keys :: "key \<Rightarrow> key \<Rightarrow> xmlparser \<Rightarrow> error + xmlparser" where
  "flatten_nested_keys nested_key value_key self =
     each_parent (recursive_parse nested_key value_key) self"

section \<open>The key renamer\<close>

text \<open>
  \<^verbatim>\<open>translation_map\<close> is a dict from strings to strings and \<^verbatim>\<open>casing\<close> a function on
  strings, or \<^verbatim>\<open>None\<close>. \<^verbatim>\<open>k.lower()\<close> raises \<^verbatim>\<open>AttributeError\<close> for a key that is not a
  string. The comprehension evaluates the key of an entry before its value.
\<close>

definition apply_casing :: "(string \<Rightarrow> string) option \<Rightarrow> string \<Rightarrow> string" where
  "apply_casing casing k = (case casing of Some f \<Rightarrow> f k | None \<Rightarrow> k)"

definition get :: "(string \<times> string) list \<Rightarrow> string \<Rightarrow> string \<Rightarrow> string" where
  "get m k dflt = (case map_of m k of Some x \<Rightarrow> x | None \<Rightarrow> dflt)"

fun recursive_translate ::
  "(string \<times> string) list \<Rightarrow> (string \<Rightarrow> string) option \<Rightarrow> pyval \<Rightarrow> error + pyval" where
  "recursive_translate translation_map casing (Dict data) =
     (case for_each (\<lambda>(k, v) new_data.
             (case k of
                KOther n \<Rightarrow> Inl AttributeError
              | KStr s \<Rightarrow>
                  (case recursive_translate translation_map casing v of
                     Inl e \<Rightarrow> Inl e
                   | Inr r \<Rightarrow>
                       Inr (AList.update
                              (KStr (apply_casing casing (get translation_map (str_lower s) s)))
                              r new_data))))
           data [] of
        Inl e \<Rightarrow> Inl e
      | Inr new_data \<Rightarrow> Inr (Dict new_data))"
| "recursive_translate translation_map casing (List data) =
     (case try_map (recursive_translate translation_map casing) data of
        Inl e \<Rightarrow> Inl e
      | Inr items \<Rightarrow> Inr (List items))"
| "recursive_translate translation_map casing data = Inr data"

definition rename_keys ::
  "(string \<times> string) list \<Rightarrow> (string \<Rightarrow> string) option \<Rightarrow> xmlparser \<Rightarrow> error + xmlparser" where
  "rename_keys translation_map casing self =
     each_parent (recursive_translate translation_map casing) self"

section \<open>The example of the module\<close>

text \<open>
  The document of the \<^verbatim>\<open>__main__\<close> block, as \<^verbatim>\<open>ET.fromstring\<close> parses it: the default
  namespace is written in braces before every tag, and the text of an element with
  children is the whitespace before its first child.
\<close>

definition ns :: "string \<Rightarrow> string" where
  "ns name = ''{http://example.com}'' @ name"

definition sample_root :: element where
  "sample_root =
     Element (ns ''root'') (Some ''\<newline>        '')
       [Element (ns ''header'') (Some ''\<newline>            '')
          [Element (ns ''ntitle'') (Some ''Sample Title'') [],
           Element (ns ''date'') (Some ''2025-03-13'') [],
           Element (ns ''meta'') (Some ''\<newline>                '')
             [Element (ns ''author'') (Some ''John Doe'') [],
              Element (ns ''version'') (Some ''1.0'') []]],
        Element (ns ''values'') (Some ''\<newline>            '')
          [Element (ns ''price'') (Some ''100'') [],
           Element (ns ''quantity'') (Some ''5'') [],
           Element (ns ''details'') (Some ''\<newline>                '')
             [Element (ns ''Name'') (Some ''Discount Details'') [],
              Element (ns ''currency'') (Some ''USD'') [],
              Element (ns ''discount'') (Some ''10%'') []],
           Element (ns ''extra'') (Some ''\<newline>                '')
             [Element (ns ''Name'') (Some ''Special Offer'') [],
              Element (ns ''Value'') (Some ''50% Off'') []]]]"

definition main :: "error + xmlparser" where
  "main =
     (let parser = init sample_root (Some [''header'', ''values'']);
          parser = remove_keys [KStr ''meta''] parser
      in case flatten_nested_keys (KStr ''Name'') (KStr ''Value'') parser of
           Inl e \<Rightarrow> Inl e
         | Inr parser \<Rightarrow>
             rename_keys [(''price'', ''cost''), (''quantity'', ''amount''), (''discount'', ''rebate'')]
               (Some str_capitalize) parser)"

section \<open>Invariants of the working structure\<close>

text \<open>
  A Python dict holds each key once: \<open>well_formed\<close> says so of every dict of a value.
  \<open>str_keys\<close> says that every key is a string, \<open>str_leaves\<close> that every leaf is one.
  \<open>dict_invariant\<close> is the first two for every parent of the parser, \<open>shape_invariant\<close>
  the data model of the working structure: under each parent a tree of dicts with
  string keys, lists and strings.
\<close>

fun well_formed :: "pyval \<Rightarrow> bool" where
  "well_formed (Dict d) = (distinct (map fst d) \<and> (\<forall>v \<in> snd ` set d. well_formed v))"
| "well_formed (List xs) = (\<forall>v \<in> set xs. well_formed v)"
| "well_formed v = True"

definition is_str :: "key \<Rightarrow> bool" where
  "is_str k = (case k of KStr s \<Rightarrow> True | KOther n \<Rightarrow> False)"

fun str_keys :: "pyval \<Rightarrow> bool" where
  "str_keys (Dict d) = (\<forall>(k, v) \<in> set d. is_str k \<and> str_keys v)"
| "str_keys (List xs) = (\<forall>v \<in> set xs. str_keys v)"
| "str_keys v = True"

fun str_leaves :: "pyval \<Rightarrow> bool" where
  "str_leaves (Dict d) = (\<forall>v \<in> snd ` set d. str_leaves v)"
| "str_leaves (List xs) = (\<forall>v \<in> set xs. str_leaves v)"
| "str_leaves (Str s) = True"
| "str_leaves (Other n) = False"

definition dict_invariant :: "xmlparser \<Rightarrow> bool" where
  "dict_invariant self = (\<forall>v \<in> snd ` set (parsed_data self). well_formed v \<and> str_keys v)"

definition shape_invariant :: "xmlparser \<Rightarrow> bool" where
  "shape_invariant self = (\<forall>v \<in> snd ` set (parsed_data self). str_keys v \<and> str_leaves v)"


text \<open>A parser with one parent and one entry under it.\<close>

definition priced :: xmlparser where
  "priced = \<lparr>parent_elements = [''values''],
             parsed_data = [(KStr ''values'', Dict [(KStr ''price'', Str ''100'')])]\<rparr>"

text \<open>
  What the loop of \<^verbatim>\<open>parse_element\<close> stores for a child: the dict of its own children, or
  its text. \<open>no_list\<close> says that a value holds no list at any depth.
\<close>

definition child_value :: "element \<Rightarrow> pyval" where
  "child_value child =
     (if children child \<noteq> [] then Dict (parse_element child) else Str (leaf_text child))"

fun no_list :: "pyval \<Rightarrow> bool" where
  "no_list (Dict d) = (\<forall>v \<in> snd ` set d. no_list v)"
| "no_list (List xs) = False"
| "no_list v = True"

text \<open>An element with two children of one local name, the first in a namespace.\<close>

definition twins :: element where
  "twins = Element ''r'' None
             [Element ''{n}a'' (Some ''1'') [], Element ''b'' (Some ''0'') [],
              Element ''a'' (Some '' 2 '') []]"

text \<open>
  A parser with a flatten pattern inside a flatten pattern, and what one and two calls
  of \<^verbatim>\<open>flatten_nested_keys()\<close> leave of it.
\<close>

definition nested :: xmlparser where
  "nested = \<lparr>parent_elements = [''values''],
             parsed_data = [(KStr ''values'',
               Dict [(KStr ''a'',
                 Dict [(KStr ''Name'', Str ''outer''),
                       (KStr ''b'', Dict [(KStr ''Name'', Str ''inner''), (KStr ''Value'', Str ''x'')])])])]\<rparr>"

definition nested_once :: xmlparser where
  "nested_once = \<lparr>parent_elements = [''values''],
             parsed_data = [(KStr ''values'',
               Dict [(KStr ''outer'',
                 Dict [(KStr ''b'', Dict [(KStr ''Name'', Str ''inner''), (KStr ''Value'', Str ''x'')])])])]\<rparr>"

definition nested_twice :: xmlparser where
  "nested_twice = \<lparr>parent_elements = [''values''],
             parsed_data = [(KStr ''values'',
               Dict [(KStr ''outer'', Dict [(KStr ''inner'', Str ''x'')])])]\<rparr>"




section \<open>Assignments to a dict\<close>

lemma update_fresh: "k \<notin> fst ` set al \<Longrightarrow> AList.update k v al = al @ [(k, v)]"
  by (induction al) auto

lemma set_update_subset: "set (AList.update k v al) \<subseteq> insert (k, v) (set al)"
  by (induction al) auto

lemma fold_update_distinct:
  "distinct (map fst acc) \<Longrightarrow> distinct (map fst (fold (\<lambda>(k, v). AList.update k v) xs acc))"
  by (induction xs arbitrary: acc) (auto simp: distinct_update)

lemma fold_update_subset:
  "set (fold (\<lambda>(k, v). AList.update k v) xs acc) \<subseteq> set xs \<union> set acc"
proof (induction xs arbitrary: acc)
  case Nil
  then show ?case by simp
next
  case (Cons x xs)
  obtain k v where x: "x = (k, v)" by (cases x)
  have "set (fold (\<lambda>(k, v). AList.update k v) xs (AList.update k v acc))
          \<subseteq> set xs \<union> set (AList.update k v acc)"
    by (rule Cons.IH)
  also have "\<dots> \<subseteq> set xs \<union> insert (k, v) (set acc)"
    using set_update_subset [of k v acc] by blast
  finally show ?case by (auto simp: x)
qed

lemma fold_update_append:
  "distinct (map fst (acc @ xs)) \<Longrightarrow> fold (\<lambda>(k, v). AList.update k v) xs acc = acc @ xs"
proof (induction xs arbitrary: acc)
  case Nil
  then show ?case by simp
next
  case (Cons x xs)
  obtain k v where x: "x = (k, v)" by (cases x)
  from Cons.prems have fresh: "k \<notin> fst ` set acc" by (auto simp: x)
  from Cons.prems have "distinct (map fst ((acc @ [(k, v)]) @ xs))" by (simp add: x)
  then have "fold (\<lambda>(k, v). AList.update k v) xs (acc @ [(k, v)]) = (acc @ [(k, v)]) @ xs"
    by (rule Cons.IH)
  then show ?case by (simp add: x update_fresh [OF fresh])
qed

lemma dict_of_distinct: "distinct (map fst (dict_of kvs))"
  by (simp add: dict_of_def fold_update_distinct)

lemma dict_of_subset: "set (dict_of kvs) \<subseteq> set kvs"
  using fold_update_subset [of kvs "[]"] by (simp add: dict_of_def)

lemma dict_of_id: "distinct (map fst kvs) \<Longrightarrow> dict_of kvs = kvs"
  using fold_update_append [of "[]" kvs] by (simp add: dict_of_def)

section \<open>Loops that may raise\<close>

lemma for_each_total:
  "\<forall>x \<in> set xs. \<forall>s. body x s = Inr (g x s) \<Longrightarrow> for_each body xs s = Inr (fold g xs s)"
  by (induction xs arbitrary: s) auto

lemma for_each_invariant:
  "for_each body xs s = Inr s' \<Longrightarrow> P s
   \<Longrightarrow> (\<And>x s t. x \<in> set xs \<Longrightarrow> P s \<Longrightarrow> body x s = Inr t \<Longrightarrow> P t) \<Longrightarrow> P s'"
proof (induction xs arbitrary: s)
  case Nil
  then show ?case by simp
next
  case (Cons x xs)
  from Cons.prems(1) obtain t where t: "body x s = Inr t" "for_each body xs t = Inr s'"
    by (auto split: sum.splits)
  have "P t" using Cons.prems(2,3) t(1) by auto
  with t(2) show ?case using Cons.IH Cons.prems(3) by (metis list.set_intros(2))
qed

lemma try_map_id: "\<forall>x \<in> set xs. f x = Inr x \<Longrightarrow> try_map f xs = Inr xs"
  by (induction xs) auto

lemma try_map_Inr:
  "try_map f xs = Inr ys \<Longrightarrow> length ys = length xs \<and> (\<forall>i < length xs. f (xs ! i) = Inr (ys ! i))"
proof (induction xs arbitrary: ys)
  case Nil
  then show ?case by simp
next
  case (Cons x xs)
  from Cons.prems obtain y zs where yz: "f x = Inr y" "try_map f xs = Inr zs" "ys = y # zs"
    by (auto split: sum.splits)
  from Cons.IH [OF yz(2)] show ?case
    by (auto simp: yz nth_Cons split: nat.splits)
qed

section \<open>Removing keys twice\<close>

lemma comprehension_id:
  "\<forall>(k, v) \<in> set zs. k \<notin> set ks \<and> f v = v
   \<Longrightarrow> [(k, f v). (k, v) \<leftarrow> zs, k \<notin> set ks] = zs"
  by (induction zs) auto

lemma recursive_remove_idem:
  "recursive_remove ks (recursive_remove ks data) = recursive_remove ks data"
proof (induction ks data rule: recursive_remove.induct)
  case (1 ks data)
  let ?ys = "[(k, recursive_remove ks v). (k, v) \<leftarrow> data, k \<notin> set ks]"
  have kept: "k \<notin> set ks \<and> recursive_remove ks v = v" if "(k, v) \<in> set (dict_of ?ys)" for k v
  proof -
    from that dict_of_subset have "(k, v) \<in> set ?ys" by blast
    then obtain x w where "(x, w) \<in> set data" "x \<notin> set ks" "k = x" "v = recursive_remove ks w"
      by (auto split: if_splits)
    then show ?thesis using "1.IH" by auto
  qed
  have "[(k, recursive_remove ks v). (k, v) \<leftarrow> dict_of ?ys, k \<notin> set ks] = dict_of ?ys"
    by (rule comprehension_id) (use kept in blast)
  then show ?case by (simp add: dict_of_id dict_of_distinct)
next
  case (2 ks data)
  then show ?case by simp
qed simp_all

text \<open>
  Claim C7. Removing a list of keys is idempotent: for every parser and every list of
  keys, \<^verbatim>\<open>remove_keys(K)\<close> applied twice leaves the same working structure as applied
  once.
\<close>

theorem remove_keys_idempotent:
  "remove_keys ks (remove_keys ks self) = remove_keys ks self"
  by (simp add: remove_keys_def recursive_remove_idem case_prod_unfold comp_def)

theorem remove_keys_idempotent_witness:
  "remove_keys [KStr ''meta''] (remove_keys [KStr ''meta''] (init sample_root None))
   = remove_keys [KStr ''meta''] (init sample_root None)"
  by (rule remove_keys_idempotent)

section \<open>Renaming keys\<close>

lemma recursive_translate_noop:
  "well_formed data \<Longrightarrow> str_keys data \<Longrightarrow> recursive_translate [] None data = Inr data"
proof (induction "[] :: (string \<times> string) list" "None :: (string \<Rightarrow> string) option" data
    rule: recursive_translate.induct)
  case (1 data)
  let ?body = "\<lambda>(k, v) new_data.
       (case k of
          KOther n \<Rightarrow> Inl AttributeError
        | KStr s \<Rightarrow>
            (case recursive_translate [] None v of
               Inl e \<Rightarrow> Inl e
             | Inr r \<Rightarrow> Inr (AList.update (KStr (apply_casing None (get [] (str_lower s) s))) r new_data)))"
  have step: "\<forall>x \<in> set data. \<forall>s. ?body x s = Inr ((\<lambda>(k, v). AList.update k v) x s)"
  proof (intro ballI allI)
    fix x s assume x: "x \<in> set data"
    obtain k v where kv: "x = (k, v)" by (cases x)
    from "1.prems" x kv obtain n where n: "k = KStr n" and v: "well_formed v" "str_keys v"
      by (cases k) (auto simp: is_str_def, force+)
    have "recursive_translate [] None v = Inr v"
      using "1.hyps" [of x k v n] x kv n v by simp
    then show "?body x s = Inr ((\<lambda>(k, v). AList.update k v) x s)"
      by (simp add: kv n apply_casing_def get_def)
  qed
  have "for_each ?body data [] = Inr (fold (\<lambda>(k, v). AList.update k v) data [])"
    by (rule for_each_total [OF step])
  also have "fold (\<lambda>(k, v). AList.update k v) data [] = data"
    using "1.prems"(1) fold_update_append [of "[]" data] by simp
  finally show ?case by simp
next
  case (2 data)
  then have "try_map (recursive_translate [] None) data = Inr data"
    by (intro try_map_id) auto
  then show ?case by simp
qed simp_all

text \<open>
  Claim C8, as amended. With an empty translation map and no casing function,
  \<^verbatim>\<open>rename_keys\<close> returns and leaves the working structure as it was, keys at every
  depth included, for every parser whose dicts have string keys. (With a casing function
  the keys change, as the counterexample shows.)
\<close>

theorem rename_keys_empty_noop:
  assumes "dict_invariant self"
  shows "rename_keys [] None self = Inr self"
proof -
  have "try_map (\<lambda>(parent, v). case recursive_translate [] None v of Inl e \<Rightarrow> Inl e | Inr r \<Rightarrow> Inr (parent, r))
          (parsed_data self) = Inr (parsed_data self)"
    using assms by (intro try_map_id) (auto simp: dict_invariant_def recursive_translate_noop)
  then show ?thesis by (simp add: rename_keys_def each_parent_def)
qed

theorem rename_keys_empty_noop_witness:
  "dict_invariant priced \<and> rename_keys [] None priced = Inr priced"
proof -
  have h: "dict_invariant priced" by (simp add: dict_invariant_def priced_def is_str_def)
  from rename_keys_empty_noop [OF h] h show ?thesis by simp
qed

theorem rename_keys_empty_counterexample:
  "rename_keys [] (Some str_capitalize) priced
     = Inr \<lparr>parent_elements = [''values''],
            parsed_data = [(KStr ''values'', Dict [(KStr ''Price'', Str ''100'')])]\<rparr>
   \<and> rename_keys [] (Some str_capitalize) priced \<noteq> Inr priced"
  by (simp add: priced_def rename_keys_def each_parent_def apply_casing_def get_def
        str_lower_def lower_char_def upper_char_def)








section \<open>Stripping namespaces\<close>

lemma find_close_first:
  "CHR ''}'' \<notin> set u \<Longrightarrow> CHR 0x0A \<notin> set u \<Longrightarrow> find_close (u @ CHR ''}'' # r) = Some r"
  by (induction u) auto

lemma strip_namespace_no_open: "CHR ''{'' \<notin> set s \<Longrightarrow> strip_namespace s = s"
  by (induction s) auto

lemma find_close_line_break:
  "CHR 0x0A \<in> set u \<Longrightarrow> CHR ''}'' \<notin> set u \<Longrightarrow> find_close (u @ r) = None"
  by (induction u) auto

text \<open>
  Claim C2. An element tag is a local name, with no brace in it, or \<^verbatim>\<open>{uri}local\<close>, with
  no closing brace in the URI. \<^verbatim>\<open>strip_namespace\<close> returns the first as given, and it
  removes the leading \<^verbatim>\<open>{uri}\<close> of the second, so that \<^verbatim>\<open>{http://example.com}price\<close> maps to
  \<^verbatim>\<open>price\<close>, when the URI holds no line break. When the URI holds a line break (and no
  opening brace), the dot of the pattern stops at it, no match is found and the tag is
  returned with its namespace: there the code does not do what the claim and the
  docstring of the method, \<^verbatim>\<open>Removes the namespace from an XML tag\<close>, say.
\<close>

theorem strip_namespace_line_break:
  "(CHR ''{'' \<notin> set s \<longrightarrow> strip_namespace s = s)
   \<and> (CHR ''}'' \<notin> set uri \<and> CHR 0x0A \<notin> set uri \<and> CHR ''{'' \<notin> set name
        \<longrightarrow> strip_namespace (CHR ''{'' # uri @ CHR ''}'' # name) = name)
   \<and> (CHR ''}'' \<notin> set uri \<and> CHR 0x0A \<in> set uri \<and> CHR ''{'' \<notin> set uri \<and> CHR ''{'' \<notin> set name
        \<longrightarrow> strip_namespace (CHR ''{'' # uri @ CHR ''}'' # name)
            = CHR ''{'' # uri @ CHR ''}'' # name)"
proof (intro conjI impI)
  assume "CHR ''{'' \<notin> set s"
  then show "strip_namespace s = s" by (rule strip_namespace_no_open)
next
  assume a: "CHR ''}'' \<notin> set uri \<and> CHR 0x0A \<notin> set uri \<and> CHR ''{'' \<notin> set name"
  then have "strip_namespace (CHR ''{'' # uri @ CHR ''}'' # name) = strip_namespace name"
    by (simp add: find_close_first)
  also have "strip_namespace name = name"
    using a by (simp add: strip_namespace_no_open)
  finally show "strip_namespace (CHR ''{'' # uri @ CHR ''}'' # name) = name" .
next
  assume a: "CHR ''}'' \<notin> set uri \<and> CHR 0x0A \<in> set uri \<and> CHR ''{'' \<notin> set uri
             \<and> CHR ''{'' \<notin> set name"
  then have "find_close (uri @ CHR ''}'' # name) = None"
    by (simp add: find_close_line_break)
  then have "strip_namespace (CHR ''{'' # uri @ CHR ''}'' # name)
               = CHR ''{'' # strip_namespace (uri @ CHR ''}'' # name)"
    by simp
  also have "strip_namespace (uri @ CHR ''}'' # name) = uri @ CHR ''}'' # name"
    using a by (intro strip_namespace_no_open) simp
  finally show "strip_namespace (CHR ''{'' # uri @ CHR ''}'' # name)
                  = CHR ''{'' # uri @ CHR ''}'' # name" .
qed

theorem strip_namespace_line_break_witness:
  "strip_namespace ''price'' = ''price''
   \<and> strip_namespace ''{http://example.com}price'' = ''price''
   \<and> strip_namespace ''{a\<newline>b}local'' = ''{a\<newline>b}local''"
  using strip_namespace_line_break [of "''price''" "''http://example.com''" "''price''"]
    strip_namespace_line_break [of "''price''" "''a\<newline>b''" "''local''"]
  by simp

theorem strip_namespace_line_break_counterexample:
  "strip_namespace ''{a\<newline>b}local'' = ''{a\<newline>b}local''
   \<and> strip_namespace ''{a\<newline>b}local'' \<noteq> ''local''"
  by simp

section \<open>Flattening\<close>

text \<open>
  Claim C3. With the default parameters \<^verbatim>\<open>nested_key="Name"\<close> and \<^verbatim>\<open>value_key="Value"\<close>,
  \<^verbatim>\<open>flatten_nested_keys\<close> turns the entry \<^verbatim>\<open>extra\<close> with a name and a value into the
  name mapped to the value, and the entry \<^verbatim>\<open>details\<close> with a name and two more entries
  into the name mapped to the dict of the two.
\<close>

theorem flatten_nested_keys_examples:
  "flatten_nested_keys (KStr ''Name'') (KStr ''Value'')
     \<lparr>parent_elements = [''values''],
      parsed_data = [(KStr ''values'',
        Dict [(KStr ''extra'', Dict [(KStr ''Name'', Str ''Special Offer''), (KStr ''Value'', Str ''50% Off'')])])]\<rparr>
   = Inr \<lparr>parent_elements = [''values''],
          parsed_data = [(KStr ''values'', Dict [(KStr ''Special Offer'', Str ''50% Off'')])]\<rparr>
   \<and> flatten_nested_keys (KStr ''Name'') (KStr ''Value'')
     \<lparr>parent_elements = [''values''],
      parsed_data = [(KStr ''values'',
        Dict [(KStr ''details'', Dict [(KStr ''Name'', Str ''Discount Details''),
                                       (KStr ''currency'', Str ''USD''),
                                       (KStr ''discount'', Str ''10%'')])])]\<rparr>
   = Inr \<lparr>parent_elements = [''values''],
          parsed_data = [(KStr ''values'',
            Dict [(KStr ''Discount Details'', Dict [(KStr ''currency'', Str ''USD''),
                                                     (KStr ''discount'', Str ''10%'')])])]\<rparr>"
  by (simp add: flatten_nested_keys_def each_parent_def pop_def promoted_def)

section \<open>The example, end to end\<close>

lemma strip_ns: "strip_namespace (ns name) = strip_namespace name"
  by (simp add: ns_def)

lemma parse_sample:
  "parse_xml_to_dict sample_root [''header'', ''values''] =
      [(KStr ''header'',
        Dict
         [(KStr ''ntitle'', Str ''Sample Title''),
          (KStr ''date'', Str ''2025-03-13''),
          (KStr ''meta'',
           Dict
            [(KStr ''author'', Str ''John Doe''),
             (KStr ''version'', Str ''1.0'')])]),
       (KStr ''values'',
        Dict
         [(KStr ''price'', Str ''100''), (KStr ''quantity'', Str ''5''),
          (KStr ''details'',
           Dict
            [(KStr ''Name'', Str ''Discount Details''),
             (KStr ''currency'', Str ''USD''),
             (KStr ''discount'', Str ''10%'')]),
          (KStr ''extra'',
           Dict
            [(KStr ''Name'', Str ''Special Offer''),
             (KStr ''Value'', Str ''50% Off'')])])]"
  by (simp add: parse_xml_to_dict_def sample_root_def strip_ns leaf_text_def str_strip_def is_space_def)

lemma removed_sample:
  "remove_keys [KStr ''meta''] (init sample_root (Some [''header'', ''values''])) =
     \<lparr>parent_elements = [''header'', ''values''],
      parsed_data =
      [(KStr ''header'',
        Dict
         [(KStr ''ntitle'', Str ''Sample Title''),
          (KStr ''date'', Str ''2025-03-13'')]),
       (KStr ''values'',
        Dict
         [(KStr ''price'', Str ''100''), (KStr ''quantity'', Str ''5''),
          (KStr ''details'',
           Dict
            [(KStr ''Name'', Str ''Discount Details''),
             (KStr ''currency'', Str ''USD''),
             (KStr ''discount'', Str ''10%'')]),
          (KStr ''extra'',
           Dict
            [(KStr ''Name'', Str ''Special Offer''),
             (KStr ''Value'', Str ''50% Off'')])])]\<rparr>"
  by (simp add: init_def parse_sample remove_keys_def dict_of_def)

lemma flattened_sample:
  "flatten_nested_keys (KStr ''Name'') (KStr ''Value'')
     (remove_keys [KStr ''meta''] (init sample_root (Some [''header'', ''values'']))) =
     Inr \<lparr>parent_elements = [''header'', ''values''],
      parsed_data =
      [(KStr ''header'',
        Dict
         [(KStr ''ntitle'', Str ''Sample Title''),
          (KStr ''date'', Str ''2025-03-13'')]),
       (KStr ''values'',
        Dict
         [(KStr ''price'', Str ''100''), (KStr ''quantity'', Str ''5''),
          (KStr ''Discount Details'',
           Dict
            [(KStr ''currency'', Str ''USD''),
             (KStr ''discount'', Str ''10%'')]),
          (KStr ''Special Offer'', Str ''50% Off'')])]\<rparr>"
  by (simp add: removed_sample flatten_nested_keys_def each_parent_def pop_def promoted_def)

text \<open>
  Claim C4, as amended. On the sample document with the parents \<^verbatim>\<open>header\<close> and \<^verbatim>\<open>values\<close>,
  after \<^verbatim>\<open>remove_keys(["meta"])\<close>, \<^verbatim>\<open>flatten_nested_keys()\<close> and \<^verbatim>\<open>rename_keys\<close> with the
  map of the example and \<^verbatim>\<open>str.capitalize\<close>, every key has been capitalized: the values
  are \<^verbatim>\<open>Cost: "100"\<close>, \<^verbatim>\<open>Amount: "5"\<close>,
  \<^verbatim>\<open>"Discount details": {"Currency": "USD", "Rebate": "10%"}\<close> and
  \<^verbatim>\<open>"Special offer": "50% Off"\<close>, and the header holds \<^verbatim>\<open>Ntitle\<close> and \<^verbatim>\<open>Date\<close> and no
  \<^verbatim>\<open>meta\<close> key.
\<close>

theorem main_result:
  "main = Inr \<lparr>parent_elements = [''header'', ''values''],
        parsed_data =
          [(KStr ''header'',
            Dict
             [(KStr ''Ntitle'', Str ''Sample Title''),
              (KStr ''Date'', Str ''2025-03-13'')]),
           (KStr ''values'',
            Dict
             [(KStr ''Cost'', Str ''100''), (KStr ''Amount'', Str ''5''),
              (KStr ''Discount details'',
               Dict
                [(KStr ''Currency'', Str ''USD''),
                 (KStr ''Rebate'', Str ''10%'')]),
              (KStr ''Special offer'', Str ''50% Off'')])]\<rparr>"
  by (simp add: main_def flattened_sample rename_keys_def each_parent_def apply_casing_def get_def
        str_lower_def lower_char_def upper_char_def)

theorem main_counterexample:
  "\<not> (case main of
        Inl e \<Rightarrow> False
      | Inr parser \<Rightarrow>
          (case map_of (parsed_data parser) (KStr ''values'') of
             Some (Dict vs) \<Rightarrow>
               map_of vs (KStr ''Cost'') = Some (Str ''100'')
               \<and> map_of vs (KStr ''Amount'') = Some (Str ''5'')
               \<and> map_of vs (KStr ''Discount Details'')
                   = Some (Dict [(KStr ''currency'', Str ''USD''), (KStr ''Rebate'', Str ''10%'')])
               \<and> map_of vs (KStr ''Special Offer'') = Some (Str ''50% Off'')
           | _ \<Rightarrow> False))"
  by (simp add: main_def flattened_sample rename_keys_def each_parent_def apply_casing_def get_def
        str_lower_def lower_char_def upper_char_def)

section \<open>Extraction\<close>

lemma extract_loop:
  "map_of (foldl (\<lambda>extracted_data parent.
              (case find (\<lambda>elem. strip_namespace (tag elem) = parent) (iter root) of
                 Some elem \<Rightarrow> AList.update (KStr parent) (Dict (parse_element elem)) extracted_data
               | None \<Rightarrow> extracted_data))
       acc parents) (KStr p)
   = (if p \<in> set parents then
        (case find (\<lambda>elem. strip_namespace (tag elem) = p) (iter root) of
           Some elem \<Rightarrow> Some (Dict (parse_element elem))
         | None \<Rightarrow> map_of acc (KStr p))
      else map_of acc (KStr p))"
proof (induction parents arbitrary: acc)
  case Nil
  then show ?case by simp
next
  case (Cons q parents)
  show ?case
    by (cases "find (\<lambda>elem. strip_namespace (tag elem) = q) (iter root)")
       (auto simp: Cons.IH update_conv' split: option.splits)
qed

text \<open>
  Claim C5. For every element tree and every list of parent names, the extracted dict
  maps a requested name to the dict built from the first element, in document order
  from the root, whose stripped tag is that name; a requested name that no element has
  is absent from the dict, as is every name that was not requested. The extractor
  returns a dict for every input: it has no error to raise.
\<close>

theorem parse_xml_to_dict_first_match:
  "map_of (parse_xml_to_dict root parents) (KStr p)
   = (if p \<in> set parents then
        map_option (\<lambda>elem. Dict (parse_element elem))
          (find (\<lambda>elem. strip_namespace (tag elem) = p) (iter root))
      else None)"
  by (simp add: parse_xml_to_dict_def extract_loop split: option.splits)

theorem parse_xml_to_dict_first_match_witness:
  "map_of (parse_xml_to_dict sample_root [''missing'', ''extra'']) (KStr ''missing'') = None
   \<and> map_of (parse_xml_to_dict sample_root [''missing'', ''extra'']) (KStr ''extra'')
       = Some (Dict [(KStr ''Name'', Str ''Special Offer''), (KStr ''Value'', Str ''50% Off'')])"
  using parse_xml_to_dict_first_match [of sample_root "[''missing'', ''extra'']" "''missing''"]
    parse_xml_to_dict_first_match [of sample_root "[''missing'', ''extra'']" "''extra''"]
  by (simp add: sample_root_def strip_ns leaf_text_def str_strip_def is_space_def)

lemma parse_element_children:
  "parse_element e =
     foldl (\<lambda>data child. AList.update (KStr (strip_namespace (tag child))) (child_value child) data)
       [] (children e)"
  by (cases e) (simp add: child_value_def)

lemma find_append:
  "find P (xs @ ys) = (case find P xs of None \<Rightarrow> find P ys | Some x \<Rightarrow> Some x)"
  by (induction xs) auto

lemma children_loop_lookup:
  "map_of (foldl (\<lambda>data child. AList.update (KStr (strip_namespace (tag child))) (child_value child) data)
       acc cs) (KStr t)
   = (case find (\<lambda>c. strip_namespace (tag c) = t) (rev cs) of
        Some c \<Rightarrow> Some (child_value c)
      | None \<Rightarrow> map_of acc (KStr t))"
proof (induction cs arbitrary: acc)
  case Nil
  then show ?case by simp
next
  case (Cons c cs)
  show ?case
    by (auto simp: Cons.IH update_conv' find_append split: option.splits)
qed

lemma children_loop_distinct:
  "distinct (map fst acc)
   \<Longrightarrow> distinct (map fst (foldl (\<lambda>data child.
          AList.update (KStr (strip_namespace (tag child))) (child_value child) data) acc cs))"
  by (induction cs arbitrary: acc) (auto simp: distinct_update)

lemma children_loop_no_list:
  "\<forall>v \<in> snd ` set acc. no_list v \<Longrightarrow> \<forall>c \<in> set cs. no_list (child_value c)
   \<Longrightarrow> \<forall>v \<in> snd ` set (foldl (\<lambda>data child.
          AList.update (KStr (strip_namespace (tag child))) (child_value child) data) acc cs). no_list v"
proof (induction cs arbitrary: acc)
  case Nil
  then show ?case by simp
next
  case (Cons c cs)
  have "\<forall>v \<in> snd ` set (AList.update (KStr (strip_namespace (tag c))) (child_value c) acc). no_list v"
    using Cons.prems set_update_subset [of "KStr (strip_namespace (tag c))" "child_value c" acc]
    by fastforce
  then show ?case using Cons.IH Cons.prems(2) by simp
qed

lemma parse_element_no_list: "no_list (Dict (parse_element e))"
proof (induction e rule: parse_element.induct)
  case (1 t x cs)
  have "\<forall>c \<in> set cs. no_list (child_value c)"
    using 1 by (auto simp: child_value_def simp del: parse_element.simps)
  then have "\<forall>v \<in> snd ` set (foldl (\<lambda>data child.
          AList.update (KStr (strip_namespace (tag child))) (child_value child) data) [] cs). no_list v"
    by (intro children_loop_no_list) simp_all
  then show ?case
    using parse_element_children [of "Element t x cs"] by (simp del: parse_element.simps)
qed

text \<open>
  Claim C6. For every element, the dict built from its children maps a local name to
  what the last child of that name stores, whatever the earlier children of the name
  held; the name is a key once, and no value at any depth is a list.
\<close>

theorem parse_element_last_wins:
  "map_of (parse_element e) (KStr t)
     = map_option child_value (find (\<lambda>c. strip_namespace (tag c) = t) (rev (children e)))
   \<and> distinct (map fst (parse_element e))
   \<and> no_list (Dict (parse_element e))"
proof (intro conjI)
  show "map_of (parse_element e) (KStr t)
     = map_option child_value (find (\<lambda>c. strip_namespace (tag c) = t) (rev (children e)))"
    by (simp add: parse_element_children children_loop_lookup split: option.splits)
  show "distinct (map fst (parse_element e))"
    by (simp add: parse_element_children children_loop_distinct)
  show "no_list (Dict (parse_element e))"
    by (rule parse_element_no_list)
qed

theorem parse_element_last_wins_witness:
  "map_of (parse_element twins) (KStr ''a'') = Some (Str ''2'')
   \<and> parse_element twins = [(KStr ''a'', Str ''2''), (KStr ''b'', Str ''0'')]"
  using parse_element_last_wins [of twins "''a''"]
  by (simp add: twins_def child_value_def leaf_text_def str_strip_def is_space_def)

section \<open>Flattening is not recursive\<close>

lemma recursive_parse_match:
  "map_of v nested_key = Some (Str s)
   \<Longrightarrow> recursive_parse nested_key value_key (Dict [(k, Dict v)])
       = Inr (Dict [(KStr s, promoted value_key (AList.delete nested_key v))])"
  by (simp add: pop_def)

text \<open>
  Claim C10. When an entry matches (its value is a dict with the nested key, here with
  a string under it), \<^verbatim>\<open>recursive_parse\<close> stores under the promoted key the value of the
  value key or the remaining dict, as it is: \<open>promoted\<close> has no recursive call. So a
  pattern inside a matched value survives one call of \<^verbatim>\<open>flatten_nested_keys\<close>, and the
  second call changes the result: the method is not idempotent.
\<close>

theorem flatten_not_recursive:
  "(map_of v nested_key = Some (Str s)
      \<longrightarrow> recursive_parse nested_key value_key (Dict [(k, Dict v)])
          = Inr (Dict [(KStr s, promoted value_key (AList.delete nested_key v))]))
   \<and> flatten_nested_keys (KStr ''Name'') (KStr ''Value'') nested = Inr nested_once
   \<and> flatten_nested_keys (KStr ''Name'') (KStr ''Value'') nested_once = Inr nested_twice
   \<and> nested_twice \<noteq> nested_once"
proof (intro conjI impI)
  assume "map_of v nested_key = Some (Str s)"
  then show "recursive_parse nested_key value_key (Dict [(k, Dict v)])
          = Inr (Dict [(KStr s, promoted value_key (AList.delete nested_key v))])"
    by (rule recursive_parse_match)
next
  show "flatten_nested_keys (KStr ''Name'') (KStr ''Value'') nested = Inr nested_once"
    by (simp add: nested_def nested_once_def flatten_nested_keys_def each_parent_def pop_def
          promoted_def)
next
  show "flatten_nested_keys (KStr ''Name'') (KStr ''Value'') nested_once = Inr nested_twice"
    by (simp add: nested_twice_def nested_once_def flatten_nested_keys_def each_parent_def pop_def
          promoted_def)
next
  show "nested_twice \<noteq> nested_once"
    by (simp add: nested_twice_def nested_once_def)
qed

theorem flatten_not_recursive_witness:
  "recursive_parse (KStr ''Name'') (KStr ''Value'')
     (Dict [(KStr ''a'',
        Dict [(KStr ''Name'', Str ''outer''),
              (KStr ''Value'', Dict [(KStr ''c'', Dict [(KStr ''Name'', Str ''inner'')])])])])
   = Inr (Dict [(KStr ''outer'', Dict [(KStr ''c'', Dict [(KStr ''Name'', Str ''inner'')])])])"
  using flatten_not_recursive [of
      "[(KStr ''Name'', Str ''outer''),
        (KStr ''Value'', Dict [(KStr ''c'', Dict [(KStr ''Name'', Str ''inner'')])])]"
      "KStr ''Name''" "''outer''" "KStr ''Value''" "KStr ''a''"]
  by (simp add: promoted_def)

end
